theory Spec2Isabelle
  imports Complex_Main
begin

section \<open>Numbers and exceptions\<close>

text \<open>
  The script computes with IEEE doubles. A finite double is modelled by the real number
  it denotes: rounding and overflow are not modelled, so every equation below is one of
  exact arithmetic. \<open>NonFinite\<close> stands for NaN and the two infinities. The inputs of
  the program are finite numbers and, in the market table, missing values (NaN); under
  that reading a \<open>NonFinite\<close> divisor is always a NaN, and the quotient is NaN again.
\<close>

datatype fl = Fin real | NonFinite

text \<open>A raised exception, identified by the name of its class.\<close>

datatype exn = Exn string

fun fl_mul :: "fl \<Rightarrow> fl \<Rightarrow> fl" where
  "fl_mul (Fin a) (Fin b) = Fin (a * b)"
| "fl_mul _ _ = NonFinite"

fun fl_add :: "fl \<Rightarrow> fl \<Rightarrow> fl" where
  "fl_add (Fin a) (Fin b) = Fin (a + b)"
| "fl_add _ _ = NonFinite"

fun fl_sub :: "fl \<Rightarrow> fl \<Rightarrow> fl" where
  "fl_sub (Fin a) (Fin b) = Fin (a - b)"
| "fl_sub _ _ = NonFinite"

text \<open>
  \<open>a / b\<close> where both operands are Python floats: a zero divisor raises
  ZeroDivisionError, whatever the dividend is.
\<close>

fun py_div :: "fl \<Rightarrow> fl \<Rightarrow> exn + fl" where
  "py_div a (Fin b) =
     (if b = 0 then Inl (Exn ''ZeroDivisionError'')
      else (case a of Fin x \<Rightarrow> Inr (Fin (x / b)) | NonFinite \<Rightarrow> Inr NonFinite))"
| "py_div a NonFinite = Inr NonFinite"

text \<open>
  \<open>a / b\<close> where one operand is a numpy float64 (an element of a pandas Series, or a
  value computed from one): numpy's scalar division is used, which on a zero divisor
  emits a RuntimeWarning and yields an infinity or NaN instead of raising.
\<close>

fun np_div :: "fl \<Rightarrow> fl \<Rightarrow> fl" where
  "np_div (Fin a) (Fin b) = (if b = 0 then NonFinite else Fin (a / b))"
| "np_div _ _ = NonFinite"

section \<open>The weight table\<close>

text \<open>The dict literal \<open>WEIGHTS\<close>, in insertion order, and \<open>TICKERS = list(WEIGHTS.keys())\<close>.\<close>

definition WEIGHTS :: "(string \<times> real) list" where
  "WEIGHTS =
     [(''CRWD'', 0.1110), (''NVDA'', 0.1100), (''AAPL'', 0.1050), (''GOOGL'', 0.1040),
      (''AVGO'', 0.1000), (''MSFT'', 0.0950), (''NOW'', 0.0910), (''AMZN'', 0.0890),
      (''NFLX'', 0.0820), (''META'', 0.0790)]"

definition TICKERS :: "string list" where
  "TICKERS = map fst WEIGHTS"

section \<open>Share estimation\<close>

text \<open>
  A pandas Series indexed by labels, and a dict from tickers to numbers: a lookup of an
  absent label raises KeyError.
\<close>

type_synonym series = "string \<rightharpoonup> fl"

definition getitem :: "series \<Rightarrow> string \<Rightarrow> exn + fl" where
  "getitem s k = (case s k of None \<Rightarrow> Inl (Exn ''KeyError'') | Some v \<Rightarrow> Inr v)"

text \<open>
  The loop \<open>for ticker, weight in WEIGHTS.items()\<close> of \<open>estimate_shares\<close>, over the
  items still to visit, with the dict \<open>shares\<close> built so far. The operand types are
  those of the function's only call, in \<open>calculate_today_nav\<close>: \<open>previous_nav\<close>,
  \<open>previous_base_price\<close> and \<open>prev_fx\<close> are Python floats (results of \<open>float(...)\<close>),
  as is \<open>weight\<close>; \<open>prev_prices\<close> is a row of a pandas table, so
  \<open>prev_prices[ticker]\<close> is a float64 and the last division is numpy's.
\<close>

fun estimate_loop :: "(string \<times> real) list \<Rightarrow> fl \<Rightarrow> series \<Rightarrow> fl \<Rightarrow> series \<Rightarrow> exn + series" where
  "estimate_loop [] previous_nav prev_prices prev_fx shares = Inr shares"
| "estimate_loop ((ticker, weight) # rest) previous_nav prev_prices prev_fx shares =
     (case py_div (fl_mul previous_nav (Fin weight)) prev_fx of
        Inl e \<Rightarrow> Inl e
      | Inr usd_value \<Rightarrow>
          (case getitem prev_prices ticker of
             Inl e \<Rightarrow> Inl e
           | Inr price \<Rightarrow>
               estimate_loop rest previous_nav prev_prices prev_fx
                 (shares(ticker \<mapsto> np_div usd_value price))))"

definition estimate_shares :: "fl \<Rightarrow> fl \<Rightarrow> series \<Rightarrow> fl \<Rightarrow> exn + (series \<times> fl)" where
  "estimate_shares previous_nav previous_base_price prev_prices prev_fx =
     (case py_div previous_nav previous_base_price of
        Inl e \<Rightarrow> Inl e
      | Inr units \<Rightarrow>
          (case estimate_loop WEIGHTS previous_nav prev_prices prev_fx Map.empty of
             Inl e \<Rightarrow> Inl e
           | Inr shares \<Rightarrow> Inr (shares, units)))"

section \<open>Text, events and the outside world\<close>

text \<open>
  A Python \<open>str\<close> is modelled by a \<open>string\<close>. A character of the source's literals
  that is not ASCII is written by its code point, as in \<open><U+26A0>\<close>.
\<close>

definition nl :: string where
  "nl = [CHR 0x0A]"

fun join :: "string \<Rightarrow> string list \<Rightarrow> string" where
  "join sep [] = []"
| "join sep [x] = x"
| "join sep (x # y # ys) = x @ sep @ join sep (y # ys)"

text \<open>
  What the script does to the outside world, in order: the HTTP GET of the reference
  feed, the market-data download (with the symbols requested), a \<open>print\<close> call (with
  its arguments) and the HTTP POST to the messaging endpoint (URL, Authorization
  header, recipient, message text).
\<close>

datatype arg = S string | I int

datatype event =
    HttpGet string
  | Download "string list"
  | Print "arg list"
  | HttpPost string string string string

text \<open>
  A computation of the script: the events it caused, and either the exception that
  ended it or its result.
\<close>

type_synonym 'a io = "event list \<times> (exn + 'a)"

definition io_bind :: "'a io \<Rightarrow> ('a \<Rightarrow> 'b io) \<Rightarrow> 'b io" where
  "io_bind m f =
     (case m of
        (es, Inl e) \<Rightarrow> (es, Inl e)
      | (es, Inr x) \<Rightarrow> (case f x of (es', r) \<Rightarrow> (es @ es', r)))"

definition io_pure :: "exn + 'a \<Rightarrow> 'a io" where
  "io_pure r = ([], r)"

text \<open>
  The table \<open>data["Close"]\<close>: its column labels and its rows in date order. A cell
  that is \<open>NonFinite\<close> is a missing value (NaN).
\<close>

record frame =
  columns :: "string list"
  index_rows :: "(string \<Rightarrow> fl) list"

text \<open>
  The answers of the outside world: the last row of the reference CSV for a fund code
  (or the exception that \<open>fetch_daiwa_csv_last_row\<close> ends with), the close table of
  the download (or the exception of \<open>yf.download(...)["Close"]\<close>), the process
  environment, and the response to the POST of a message text (status code and body,
  or the exception of \<open>requests.post\<close>).
\<close>

record world =
  daiwa_last_row :: "string \<Rightarrow> exn + (string \<rightharpoonup> real)"
  yf_close :: "exn + frame"
  environ :: "string \<rightharpoonup> string"
  line_response :: "string \<Rightarrow> exn + (int \<times> string)"

text \<open>
  Library functions of Python that the script calls and whose text output is not
  modelled: the three number formats \<open>{:,.2f}\<close>, \<open>{:.2f}\<close> and \<open>{:,.1f}\<close>, and
  \<open>traceback.format_exc()\<close> for the exception being handled.
\<close>

record lib =
  fmt_c2 :: "fl \<Rightarrow> string"
  fmt_2 :: "fl \<Rightarrow> string"
  fmt_c1 :: "fl \<Rightarrow> string"
  format_exc :: "exn \<Rightarrow> string"

section \<open>Reference data and market data\<close>

definition daiwa_url :: "string \<Rightarrow> string" where
  "daiwa_url fund_code =
     ''https://www.daiwa-am.co.jp/funds/detail/csv_out.php?code='' @ fund_code @ ''&type=1''"

definition fetch_daiwa_csv_last_row :: "world \<Rightarrow> string \<Rightarrow> (string \<rightharpoonup> real) io" where
  "fetch_daiwa_csv_last_row W fund_code = ([HttpGet (daiwa_url fund_code)], daiwa_last_row W fund_code)"

text \<open>\<open>float(last_row[name])\<close>: KeyError when the column is absent.\<close>

definition float_of_column :: "(string \<rightharpoonup> real) \<Rightarrow> string \<Rightarrow> exn + fl" where
  "float_of_column last_row name =
     (case last_row name of None \<Rightarrow> Inl (Exn ''KeyError'') | Some v \<Rightarrow> Inr (Fin v))"

definition FX_SYMBOL :: string where
  "FX_SYMBOL = ''USDJPY=X''"

text \<open>
  \<open>ffill()\<close> along the dates: a missing cell takes the value of the filled row before
  it; the first argument is that row (all cells missing before the first date).
\<close>

fun ffill_rows :: "(string \<Rightarrow> fl) \<Rightarrow> (string \<Rightarrow> fl) list \<Rightarrow> (string \<Rightarrow> fl) list" where
  "ffill_rows before [] = []"
| "ffill_rows before (r # rs) =
     (let r' = (\<lambda>t. case r t of NonFinite \<Rightarrow> before t | Fin v \<Rightarrow> Fin v)
      in r' # ffill_rows r' rs)"

fun ffill_list :: "fl \<Rightarrow> fl list \<Rightarrow> fl list" where
  "ffill_list before [] = []"
| "ffill_list before (x # xs) =
     (let x' = (case x of NonFinite \<Rightarrow> before | Fin v \<Rightarrow> Fin v)
      in x' # ffill_list x' xs)"

definition get_prices_and_fx :: "world \<Rightarrow> (frame \<times> fl list) io" where
  "get_prices_and_fx W =
     ([Download (TICKERS @ [FX_SYMBOL])],
      (case yf_close W of
         Inl e \<Rightarrow> Inl e
       | Inr close \<Rightarrow>
           if \<not> set TICKERS \<subseteq> set (columns close) then Inl (Exn ''KeyError'')
           else if FX_SYMBOL \<notin> set (columns close) then Inl (Exn ''KeyError'')
           else Inr (\<lparr>columns = TICKERS,
                       index_rows = ffill_rows (\<lambda>t. NonFinite) (index_rows close)\<rparr>,
                     ffill_list NonFinite (map (\<lambda>r. r FX_SYMBOL) (index_rows close)))))"

text \<open>
  \<open>xs.iloc[-k]\<close> for \<open>k > 0\<close>: the \<open>k\<close>-th element from the end, IndexError when there
  are fewer than \<open>k\<close>.
\<close>

definition iloc_neg :: "'a list \<Rightarrow> nat \<Rightarrow> exn + 'a" where
  "iloc_neg xs k =
     (if k \<le> length xs then Inr (xs ! (length xs - k)) else Inl (Exn ''IndexError''))"

text \<open>A row of a frame as a Series: its labels are the frame's columns.\<close>

definition row_series :: "string list \<Rightarrow> (string \<Rightarrow> fl) \<Rightarrow> series" where
  "row_series cols r = (\<lambda>t. if t \<in> set cols then Some (r t) else None)"

section \<open>NAV projection\<close>

text \<open>
  \<open>sum(shares[t] * last_prices[t] for t in TICKERS)\<close>, over the tickers still to add,
  with the sum so far (it starts at 0).
\<close>

fun total_usd_loop :: "string list \<Rightarrow> series \<Rightarrow> series \<Rightarrow> fl \<Rightarrow> exn + fl" where
  "total_usd_loop [] shares last_prices acc = Inr acc"
| "total_usd_loop (t # ts) shares last_prices acc =
     (case getitem shares t of
        Inl e \<Rightarrow> Inl e
      | Inr s \<Rightarrow>
          (case getitem last_prices t of
             Inl e \<Rightarrow> Inl e
           | Inr p \<Rightarrow> total_usd_loop ts shares last_prices (fl_add acc (fl_mul s p))))"

record projection =
  estimated_base_price :: fl
  diff :: fl
  pct :: fl

text \<open>
  Lines 86 to 96 of \<open>calculate_today_nav\<close> without the text: the revaluation, the
  change and the percentage \<open>(diff/previous_base_price)*100\<close>. \<open>total_usd\<close> is a
  float64, so both divisions are numpy's.
\<close>

definition nav_projection :: "series \<Rightarrow> fl \<Rightarrow> series \<Rightarrow> fl \<Rightarrow> fl \<Rightarrow> exn + projection" where
  "nav_projection shares units last_prices last_fx previous_base_price =
     (case total_usd_loop TICKERS shares last_prices (Fin 0) of
        Inl e \<Rightarrow> Inl e
      | Inr total_usd \<Rightarrow>
          (let total_jpy = fl_mul total_usd last_fx;
               est = np_div total_jpy units;
               d = fl_sub est previous_base_price
           in Inr \<lparr>estimated_base_price = est, diff = d,
                    pct = fl_mul (np_div d previous_base_price) (Fin 100)\<rparr>))"

section \<open>The report\<close>

fun share_lines :: "lib \<Rightarrow> string list \<Rightarrow> series \<Rightarrow> exn + string list" where
  "share_lines L [] shares = Inr []"
| "share_lines L (t # ts) shares =
     (case getitem shares t of
        Inl e \<Rightarrow> Inl e
      | Inr s \<Rightarrow>
          (case share_lines L ts shares of
             Inl e \<Rightarrow> Inl e
           | Inr ls \<Rightarrow> Inr ((t @ '': '' @ fmt_c1 L s @ ''<U+682A>'') # ls)))"

definition REPORT_TITLE :: string where
  "REPORT_TITLE = ''<U+1F4C8><U+3010>FANG+ <U+63A8><U+5B9A><U+57FA><U+6E96><U+4FA1><U+984D><U+FF08><U+6700><U+65B0><U+69CB><U+6210><U+9298><U+67C4><U+7248><U+FF09><U+3011>''"

text \<open>Lines 91 to 104: the list \<open>msg\<close> and its join.\<close>

definition format_report :: "lib \<Rightarrow> fl \<Rightarrow> projection \<Rightarrow> fl \<Rightarrow> fl \<Rightarrow> series \<Rightarrow> exn + string" where
  "format_report L previous_base_price pr prev_fx last_fx shares =
     (case share_lines L TICKERS shares of
        Inl e \<Rightarrow> Inl e
      | Inr ls \<Rightarrow>
          Inr (join nl
            ([REPORT_TITLE,
              ''<U+524D><U+65E5><U+57FA><U+6E96><U+4FA1><U+984D>: '' @ fmt_c2 L previous_base_price @ '' <U+5186>'',
              ''<U+63A8><U+5B9A><U+57FA><U+6E96><U+4FA1><U+984D>: '' @ fmt_c2 L (estimated_base_price pr) @ '' <U+5186>'',
              ''<U+524D><U+65E5><U+6BD4>: '' @ fmt_c2 L (diff pr) @ '' <U+5186> ('' @ fmt_2 L (pct pr) @ ''%)'',
              [],
              ''USDJPY: '' @ fmt_2 L prev_fx @ '' <U+2192> '' @ fmt_2 L last_fx,
              nl @ ''<U+4FDD><U+6709><U+682A><U+6570><U+63A8><U+5B9A><U+FF1A>''] @ ls)))"

section \<open>The pipeline\<close>

definition BASE_PRICE_COLUMN :: string where
  "BASE_PRICE_COLUMN = ''<U+57FA><U+6E96><U+4FA1><U+984D>''"

definition NET_ASSETS_COLUMN :: string where
  "NET_ASSETS_COLUMN = ''<U+7D14><U+8CC7><U+7523><U+7DCF><U+984D>''"

text \<open>
  \<open>calculate_today_nav\<close> up to the percentage of line 96, without the text: the
  numbers the report is rendered from (previous base price, projection, previous and
  latest FX rate, shares).
\<close>

definition today_estimate :: "world \<Rightarrow> (fl \<times> projection \<times> fl \<times> fl \<times> series) io" where
  "today_estimate W =
     io_bind (fetch_daiwa_csv_last_row W ''3346'') (\<lambda>last_row.
     io_bind (io_pure (float_of_column last_row BASE_PRICE_COLUMN)) (\<lambda>previous_base_price.
     io_bind (io_pure (float_of_column last_row NET_ASSETS_COLUMN)) (\<lambda>previous_nav.
     io_bind (get_prices_and_fx W) (\<lambda>(prices, fx).
     io_bind (io_pure (iloc_neg (index_rows prices) 2)) (\<lambda>prev_prices.
     io_bind (io_pure (iloc_neg (index_rows prices) 1)) (\<lambda>last_prices.
     io_bind (io_pure (iloc_neg fx 2)) (\<lambda>prev_fx.
     io_bind (io_pure (iloc_neg fx 1)) (\<lambda>last_fx.
     io_bind (io_pure (estimate_shares previous_nav previous_base_price
                         (row_series (columns prices) prev_prices) prev_fx)) (\<lambda>(shares, units).
     io_bind (io_pure (nav_projection shares units
                         (row_series (columns prices) last_prices) last_fx previous_base_price)) (\<lambda>pr.
     io_pure (Inr (previous_base_price, pr, prev_fx, last_fx, shares))))))))))))"

definition calculate_today_nav :: "lib \<Rightarrow> world \<Rightarrow> string io" where
  "calculate_today_nav L W =
     io_bind (today_estimate W) (\<lambda>(previous_base_price, pr, prev_fx, last_fx, shares).
       io_pure (format_report L previous_base_price pr prev_fx last_fx shares))"

section \<open>Notification and the entry point\<close>

definition LINE_URL :: string where
  "LINE_URL = ''https://api.line.me/v2/bot/message/push''"

definition SKIP_NOTICE :: string where
  "SKIP_NOTICE = ''<U+274C> LINE <U+306E><U+74B0><U+5883><U+5909><U+6570><U+304C><U+8A2D><U+5B9A><U+3055><U+308C><U+3066><U+3044><U+307E><U+305B><U+3093>''"

text \<open>
  \<open>not v\<close> for the result of \<open>os.getenv\<close>: true for None and for the empty string.
  Past the test of \<open>send_line_message\<close> both credentials are present, and \<open>the\<close>
  reads them.
\<close>

definition falsy :: "string option \<Rightarrow> bool" where
  "falsy v = (case v of None \<Rightarrow> True | Some s \<Rightarrow> s = [])"

definition send_line_message :: "world \<Rightarrow> string \<Rightarrow> unit io" where
  "send_line_message W text =
     (let token = environ W ''LINE_CHANNEL_ACCESS_TOKEN'';
          user_id = environ W ''LINE_TO_USER_ID''
      in if falsy token \<or> falsy user_id then ([Print [S SKIP_NOTICE]], Inr ())
         else
           (let post = HttpPost LINE_URL (''Bearer '' @ the token) (the user_id) text
            in case line_response W text of
                 Inl e \<Rightarrow> ([post], Inl e)
               | Inr (status_code, body) \<Rightarrow>
                   ([post,
                     Print [S ''LINE API <U+30EC><U+30B9><U+30DD><U+30F3><U+30B9>:'', I status_code, S body]],
                    Inr ())))"



section \<open>Example inputs\<close>

text \<open>
  Concrete inputs on which the theorems below are instantiated: formats that print a
  fixed text, a market row with every price at 100 and the FX rate at 150, and a world
  whose reference feed gives the base price 10000 and net assets 1000, whose download
  has the given rows, and whose environment holds both credentials.
\<close>

definition example_lib :: lib where
  "example_lib =
     \<lparr>fmt_c2 = (\<lambda>x. ''#,.##''), fmt_2 = (\<lambda>x. ''#.##''), fmt_c1 = (\<lambda>x. ''#,.#''),
      format_exc = (\<lambda>e. case e of Exn c \<Rightarrow> ''Traceback (most recent call last): '' @ c)\<rparr>"

definition example_row :: "string \<Rightarrow> fl" where
  "example_row t = (if t = FX_SYMBOL then Fin 150 else Fin 100)"

definition example_world :: "(string \<Rightarrow> fl) list \<Rightarrow> world" where
  "example_world rows =
     \<lparr>daiwa_last_row = (\<lambda>c. Inr [BASE_PRICE_COLUMN \<mapsto> 10000, NET_ASSETS_COLUMN \<mapsto> 1000]),
      yf_close = Inr \<lparr>columns = TICKERS @ [FX_SYMBOL], index_rows = rows\<rparr>,
      environ = [''LINE_CHANNEL_ACCESS_TOKEN'' \<mapsto> ''token'', ''LINE_TO_USER_ID'' \<mapsto> ''U123''],
      line_response = (\<lambda>text. Inr (200, ''{}''))\<rparr>"

section \<open>Facts about the weight table\<close>

lemma distinct_WEIGHTS: "distinct (map fst WEIGHTS)"
  by (simp add: WEIGHTS_def)

lemma estimate_loop_value:
  assumes "distinct (map fst items)" and "fx \<noteq> 0"
    and "\<forall>t\<in>fst ` set items. prev_prices t = Some (q t)"
  shows "estimate_loop items (Fin nav) prev_prices (Fin fx) sh =
     Inr (\<lambda>t. case map_of items t of
                 None \<Rightarrow> sh t
               | Some w \<Rightarrow> Some (np_div (Fin ((nav * w) / fx)) (q t)))"
  using assms
proof (induction items arbitrary: sh)
  case Nil
  then show ?case by simp
next
  case (Cons a items)
  obtain t w where a: "a = (t, w)" by (cases a)
  have notin: "t \<notin> fst ` set items" using Cons.prems(1) a by auto
  have pt: "prev_prices t = Some (q t)" using Cons.prems(3) a by auto
  have rest: "\<forall>t\<in>fst ` set items. prev_prices t = Some (q t)"
    using Cons.prems(3) by auto
  have d: "distinct (map fst items)" using Cons.prems(1) by simp
  have none: "map_of items t = None" using notin by (simp add: map_of_eq_None_iff)
  show ?case
    unfolding a
    apply (simp add: getitem_def pt Cons.prems(2) Cons.IH [OF d Cons.prems(2) rest])
    apply (rule ext)
    apply (auto simp: none split: option.splits)
    done
qed

lemma map_of_WEIGHTS_dom: "(map_of WEIGHTS t \<noteq> None) = (t \<in> set TICKERS)"
  by (simp add: TICKERS_def map_of_eq_None_iff)

lemma estimate_shares_value:
  assumes "previous_base_price \<noteq> 0" and "prev_fx \<noteq> 0"
    and "\<forall>t\<in>set TICKERS. prev_prices t = Some (q t)"
  shows "estimate_shares (Fin previous_nav) (Fin previous_base_price) prev_prices (Fin prev_fx) =
     Inr (\<lambda>t. map_option (\<lambda>w. np_div (Fin ((previous_nav * w) / prev_fx)) (q t)) (map_of WEIGHTS t),
          Fin (previous_nav / previous_base_price))"
proof -
  have p: "\<forall>t\<in>fst ` set WEIGHTS. prev_prices t = Some (q t)"
    using assms(3) by (simp add: TICKERS_def)
  have "(\<lambda>t. case map_of WEIGHTS t of None \<Rightarrow> Map.empty t
                | Some w \<Rightarrow> Some (np_div (Fin ((previous_nav * w) / prev_fx)) (q t))) =
        (\<lambda>t. map_option (\<lambda>w. np_div (Fin ((previous_nav * w) / prev_fx)) (q t)) (map_of WEIGHTS t))"
    by (rule ext) (simp split: option.splits)
  then show ?thesis
    by (simp add: estimate_shares_def assms(1)
        estimate_loop_value [OF distinct_WEIGHTS assms(2) p])
qed


lemma total_usd_loop_finite:
  assumes "\<forall>t\<in>set ts. shares t = Some (Fin (s t)) \<and> last_prices t = Some (Fin (p t))"
  shows "total_usd_loop ts shares last_prices (Fin a) = Inr (Fin (a + (\<Sum>t\<leftarrow>ts. s t * p t)))"
  using assms
  by (induction ts arbitrary: a) (simp_all add: getitem_def add.assoc)

lemma nav_projection_value:
  assumes "\<forall>t\<in>set TICKERS. shares t = Some (Fin (s t)) \<and> last_prices t = Some (Fin (p t))"
    and "units \<noteq> 0"
  shows "nav_projection shares (Fin units) last_prices (Fin last_fx) (Fin previous_base_price) =
     Inr \<lparr>estimated_base_price = Fin ((\<Sum>t\<leftarrow>TICKERS. s t * p t) * last_fx / units),
          diff = Fin ((\<Sum>t\<leftarrow>TICKERS. s t * p t) * last_fx / units - previous_base_price),
          pct = (if previous_base_price = 0 then NonFinite
                 else Fin ((((\<Sum>t\<leftarrow>TICKERS. s t * p t) * last_fx / units - previous_base_price)
                            / previous_base_price) * 100))\<rparr>"
  by (simp add: nav_projection_def total_usd_loop_finite [OF assms(1)] assms(2) Let_def)






lemma py_div_ok: "b \<noteq> Fin 0 \<Longrightarrow> \<exists>u. py_div a b = Inr u"
  by (cases b; cases a) auto

lemma estimate_shares_zero_base:
  "estimate_shares previous_nav (Fin 0) prev_prices prev_fx = Inl (Exn ''ZeroDivisionError'')"
  by (simp add: estimate_shares_def)

lemma estimate_shares_zero_fx:
  assumes "previous_base_price \<noteq> Fin 0"
  shows "estimate_shares previous_nav previous_base_price prev_prices (Fin 0) = Inl (Exn ''ZeroDivisionError'')"
proof -
  obtain u where "py_div previous_nav previous_base_price = Inr u"
    using py_div_ok [OF assms] by blast
  then show ?thesis
    by (simp add: estimate_shares_def WEIGHTS_def)
qed

lemma estimate_shares_zero_price:
  assumes "previous_base_price \<noteq> 0" and "prev_fx \<noteq> 0"
    and "\<forall>t\<in>set TICKERS. prev_prices t = Some (q t)"
    and "h \<in> set TICKERS" and "q h = Fin 0"
  shows "\<exists>shares units.
      estimate_shares (Fin previous_nav) (Fin previous_base_price) prev_prices (Fin prev_fx) = Inr (shares, units)
      \<and> shares h = Some NonFinite"
proof -
  obtain w where w: "map_of WEIGHTS h = Some w"
    using assms(4) map_of_WEIGHTS_dom [of h] by auto
  show ?thesis
    using estimate_shares_value [OF assms(1) assms(2) assms(3), of previous_nav] w assms(5)
    by simp
qed






section \<open>Facts about the pipeline\<close>



lemma io_bind_pure_Inl: "io_bind (io_pure (Inl e)) f = ([], Inl e)"
  by (simp add: io_bind_def io_pure_def)















lemma calculate_today_nav_events: "fst (calculate_today_nav L W) = fst (today_estimate W)"
proof (cases "today_estimate W")
  case (Pair es r)
  then show ?thesis
    by (cases r) (auto simp: calculate_today_nav_def io_bind_def io_pure_def)
qed

lemma share_lines_cong:
  assumes "\<forall>t\<in>set ts. shares t = shares' t"
  shows "share_lines L ts shares = share_lines L ts shares'"
  using assms by (induction ts) (simp_all add: getitem_def split: option.splits)

lemma share_lines_total:
  assumes "set ts \<subseteq> dom shares"
  shows "\<exists>ls. share_lines L ts shares = Inr ls"
  using assms
proof (induction ts)
  case Nil
  then show ?case by simp
next
  case (Cons t ts)
  then obtain v ls where "shares t = Some v" "share_lines L ts shares = Inr ls"
    by auto
  then show ?case by (simp add: getitem_def)
qed

lemma format_report_cong:
  assumes "\<forall>t\<in>set TICKERS. shares t = shares' t"
  shows "format_report L pbp pr pfx lfx shares = format_report L pbp pr pfx lfx shares'"
  by (simp add: format_report_def share_lines_cong [OF assms])

lemma format_report_total:
  assumes "set TICKERS \<subseteq> dom shares"
  shows "\<exists>text. format_report L pbp pr pfx lfx shares = Inr text"
proof -
  obtain ls where "share_lines L TICKERS shares = Inr ls"
    using share_lines_total [OF assms] by blast
  then show ?thesis by (simp add: format_report_def)
qed















section \<open>Share estimation: the formula\<close>

text \<open>
  Claim C1. For finite inputs with a nonzero previous base price, a nonzero previous FX
  rate and a nonzero previous price for every holding, \<open>estimate_shares\<close> returns the
  unit count \<open>previous_nav / previous_base_price\<close> and, for each holding of the weight
  table, the share count \<open>((previous_nav * w) / prev_fx) / p\<close>, where \<open>w\<close> is the
  holding's entry of \<open>WEIGHTS\<close> as it stands: the weights are not normalised (they
  sum to 0.966, see \<open>WEIGHTS_sum\<close>). No other key gets a share count.
\<close>

theorem estimate_shares_formula:
  assumes "previous_base_price \<noteq> 0" and "prev_fx \<noteq> 0"
    and "\<forall>t\<in>set TICKERS. prev_prices t = Some (Fin (p t)) \<and> p t \<noteq> 0"
  shows "estimate_shares (Fin previous_nav) (Fin previous_base_price) prev_prices (Fin prev_fx) =
     Inr (\<lambda>t. map_option (\<lambda>w. Fin (((previous_nav * w) / prev_fx) / p t)) (map_of WEIGHTS t),
          Fin (previous_nav / previous_base_price))"
proof -
  have q: "\<forall>t\<in>set TICKERS. prev_prices t = Some (Fin (p t))"
    using assms(3) by simp
  have "(\<lambda>t. map_option (\<lambda>w. np_div (Fin ((previous_nav * w) / prev_fx)) (Fin (p t))) (map_of WEIGHTS t)) =
        (\<lambda>t. map_option (\<lambda>w. Fin (((previous_nav * w) / prev_fx) / p t)) (map_of WEIGHTS t))"
  proof (rule ext)
    fix t
    show "map_option (\<lambda>w. np_div (Fin ((previous_nav * w) / prev_fx)) (Fin (p t))) (map_of WEIGHTS t) =
          map_option (\<lambda>w. Fin (((previous_nav * w) / prev_fx) / p t)) (map_of WEIGHTS t)"
    proof (cases "map_of WEIGHTS t")
      case None
      then show ?thesis by simp
    next
      case (Some w)
      then have "t \<in> set TICKERS" using map_of_WEIGHTS_dom [of t] by simp
      then have "p t \<noteq> 0" using assms(3) by simp
      then show ?thesis using Some by simp
    qed
  qed
  then show ?thesis
    using estimate_shares_value [OF assms(1) assms(2) q, of previous_nav] by simp
qed

theorem estimate_shares_formula_witness:
  "estimate_shares (Fin 1000) (Fin 10000) (\<lambda>t. Some (Fin 100)) (Fin 150) =
     Inr (\<lambda>t. map_option (\<lambda>w. Fin (((1000 * w) / 150) / 100)) (map_of WEIGHTS t), Fin (1000 / 10000))"
  using estimate_shares_formula [of 10000 150 "\<lambda>t. Some (Fin 100)" "\<lambda>t. 100" 1000]
  by simp

section \<open>NAV projection: the formula\<close>

text \<open>
  Claim C2. For finite shares and latest prices of every holding, a finite latest FX
  rate and a nonzero unit count, the projection is
  \<open>estimated_base_price = (\<Sum> shares * latest price) * last_fx / units\<close>, the change is
  \<open>estimated_base_price - previous_base_price\<close> and the percentage is
  \<open>(diff / previous_base_price) * 100\<close>. The last is a float64 division: for a zero
  previous base price it is not finite (in a run of the script that case has already
  raised in \<open>estimate_shares\<close>).
\<close>

theorem nav_projection_formula:
  assumes "\<forall>t\<in>set TICKERS. shares t = Some (Fin (s t)) \<and> last_prices t = Some (Fin (p t))"
    and "units \<noteq> 0"
  shows "nav_projection shares (Fin units) last_prices (Fin last_fx) (Fin previous_base_price) =
     Inr \<lparr>estimated_base_price = Fin ((\<Sum>t\<leftarrow>TICKERS. s t * p t) * last_fx / units),
          diff = Fin ((\<Sum>t\<leftarrow>TICKERS. s t * p t) * last_fx / units - previous_base_price),
          pct = (if previous_base_price = 0 then NonFinite
                 else Fin ((((\<Sum>t\<leftarrow>TICKERS. s t * p t) * last_fx / units - previous_base_price)
                            / previous_base_price) * 100))\<rparr>"
  using assms by (rule nav_projection_value)

theorem nav_projection_formula_witness:
  "nav_projection (\<lambda>t. Some (Fin 2)) (Fin 4) (\<lambda>t. Some (Fin 3)) (Fin 150) (Fin 2000) =
     Inr \<lparr>estimated_base_price = Fin 2250, diff = Fin 250, pct = Fin (25 / 2)\<rparr>"
  using nav_projection_formula [of "\<lambda>t. Some (Fin 2)" "\<lambda>t. 2" "\<lambda>t. Some (Fin 3)" "\<lambda>t. 3" 4 150 2000]
  by (simp add: TICKERS_def WEIGHTS_def)



section \<open>The no-change scenario\<close>




section \<open>Zero divisors in the share estimation\<close>

text \<open>
  Claim C4, as stated, fails for a zero previous price: with previous NAV 1000, previous
  base price 10000, FX rate 150 and the price of META equal to 0, \<open>estimate_shares\<close>
  returns, and the share count of META is not finite.
\<close>

theorem estimate_shares_zero_price_counterexample:
  "\<not> isl (estimate_shares (Fin 1000) (Fin 10000) ((\<lambda>t. Some (Fin 100))(''META'' \<mapsto> Fin 0)) (Fin 150))
   \<and> fst (projr (estimate_shares (Fin 1000) (Fin 10000) ((\<lambda>t. Some (Fin 100))(''META'' \<mapsto> Fin 0)) (Fin 150)))
        ''META'' = Some NonFinite"
proof -
  have "estimate_shares (Fin 1000) (Fin 10000) ((\<lambda>t. Some (Fin 100))(''META'' \<mapsto> Fin 0)) (Fin 150) =
      Inr (\<lambda>t. map_option (\<lambda>w. np_div (Fin ((1000 * w) / 150)) (if t = ''META'' then Fin 0 else Fin 100))
                 (map_of WEIGHTS t),
           Fin (1000 / 10000))"
    by (rule estimate_shares_value) simp_all
  then show ?thesis
    by (simp add: WEIGHTS_def)
qed

text \<open>
  Claim C4, amended. \<open>estimate_shares\<close> raises ZeroDivisionError when the previous
  base price is 0, and when the previous FX rate is 0 (and the base price is not). When
  both are finite and nonzero and every holding has a previous price, a previous price
  of 0 for a holding raises nothing: \<open>estimate_shares\<close> returns, with a share count
  for that holding that is not finite.
\<close>

theorem estimate_shares_zero_divisors:
  "estimate_shares previous_nav (Fin 0) prev_prices prev_fx = Inl (Exn ''ZeroDivisionError'')
   \<and> (previous_base_price \<noteq> Fin 0 \<longrightarrow>
        estimate_shares previous_nav previous_base_price prev_prices (Fin 0) = Inl (Exn ''ZeroDivisionError''))
   \<and> (b \<noteq> 0 \<and> fx \<noteq> 0 \<and> (\<forall>t\<in>set TICKERS. prev_prices t = Some (q t)) \<and> h \<in> set TICKERS \<and> q h = Fin 0 \<longrightarrow>
        (\<exists>shares units. estimate_shares (Fin nav) (Fin b) prev_prices (Fin fx) = Inr (shares, units)
            \<and> shares h = Some NonFinite))"
  using estimate_shares_zero_base estimate_shares_zero_fx estimate_shares_zero_price
  by blast

theorem estimate_shares_zero_divisors_witness:
  "estimate_shares (Fin 1000) (Fin 0) (\<lambda>t. Some (Fin 100)) (Fin 150) = Inl (Exn ''ZeroDivisionError'')
   \<and> estimate_shares (Fin 1000) (Fin 10000) (\<lambda>t. Some (Fin 100)) (Fin 0) = Inl (Exn ''ZeroDivisionError'')
   \<and> (\<exists>shares units. estimate_shares (Fin 1000) (Fin 10000) (\<lambda>t. Some (Fin 0)) (Fin 150) = Inr (shares, units)
            \<and> shares ''META'' = Some NonFinite)"
  using estimate_shares_zero_divisors [of "Fin 1000" "\<lambda>t. Some (Fin 100)" "Fin 150" "Fin 10000" ]
    estimate_shares_zero_divisors [of "Fin 1000" "\<lambda>t. Some (Fin 0)" "Fin 150" "Fin 10000" 10000 150 "\<lambda>t. Fin 0" "''META''" 1000]
  by (simp add: TICKERS_def WEIGHTS_def)

section \<open>Monotonicity of the projection\<close>




section \<open>Notification without credentials\<close>

text \<open>
  Claim C5. For every message text, when the access token or the recipient identifier
  is absent from the environment, \<open>send_line_message\<close> returns normally, its only
  event is the \<open>print\<close> of the skip notice, and so no HTTP POST is attempted.
\<close>

theorem send_line_message_skips:
  assumes "environ W ''LINE_CHANNEL_ACCESS_TOKEN'' = None \<or> environ W ''LINE_TO_USER_ID'' = None"
  shows "send_line_message W text = ([Print [S SKIP_NOTICE]], Inr ())"
  using assms by (auto simp: send_line_message_def falsy_def Let_def)

theorem send_line_message_skips_witness:
  "send_line_message
     \<lparr>daiwa_last_row = (\<lambda>c. Inl (Exn ''ConnectionError'')), yf_close = Inl (Exn ''ConnectionError''),
      environ = [''LINE_TO_USER_ID'' \<mapsto> ''U123''], line_response = (\<lambda>t. Inr (200, ''{}''))\<rparr>
     ''hello'' = ([Print [S SKIP_NOTICE]], Inr ())"
  by (rule send_line_message_skips) simp



section \<open>The error report\<close>



section \<open>Too few rows of market data\<close>




section \<open>The report text\<close>

text \<open>
  Claim C8. The rendering of the report is a function of its inputs alone: two calls
  whose inputs are identical (the shares being those of the holdings) give the same
  result; it gives a text whenever every holding has a share count; and it has no
  effect: the events of \<open>calculate_today_nav\<close> are those of the computation before the
  rendering, in every world.
\<close>

theorem format_report_pure:
  assumes "\<forall>t\<in>set TICKERS. shares t = shares' t"
  shows "format_report L pbp pr pfx lfx shares = format_report L pbp pr pfx lfx shares'
     \<and> (set TICKERS \<subseteq> dom shares \<longrightarrow> (\<exists>text. format_report L pbp pr pfx lfx shares = Inr text))
     \<and> fst (calculate_today_nav L W) = fst (today_estimate W)"
  using format_report_cong [OF assms] format_report_total calculate_today_nav_events
  by blast

theorem format_report_pure_witness:
  "format_report example_lib (Fin 10000)
       \<lparr>estimated_base_price = Fin 9660, diff = Fin (- 340), pct = Fin (- 17 / 5)\<rparr>
       (Fin 150) (Fin 150) (\<lambda>t. Some (Fin 1))
     = format_report example_lib (Fin 10000)
       \<lparr>estimated_base_price = Fin 9660, diff = Fin (- 340), pct = Fin (- 17 / 5)\<rparr>
       (Fin 150) (Fin 150) ((\<lambda>t. Some (Fin 1))(''ZZZZ'' \<mapsto> Fin 5))
   \<and> (\<exists>text. format_report example_lib (Fin 10000)
       \<lparr>estimated_base_price = Fin 9660, diff = Fin (- 340), pct = Fin (- 17 / 5)\<rparr>
       (Fin 150) (Fin 150) (\<lambda>t. Some (Fin 1)) = Inr text)
   \<and> fst (calculate_today_nav example_lib (example_world [example_row, example_row]))
       = fst (today_estimate (example_world [example_row, example_row]))"
proof -
  have a: "\<forall>t\<in>set TICKERS. (\<lambda>t. Some (Fin 1)) t = ((\<lambda>t. Some (Fin 1))(''ZZZZ'' \<mapsto> Fin 5)) t"
    by (simp add: TICKERS_def WEIGHTS_def)
  have d: "set TICKERS \<subseteq> dom (\<lambda>t. Some (Fin 1))"
    by auto
  show ?thesis
    using format_report_pure [OF a, of example_lib "Fin 10000"
        "\<lparr>estimated_base_price = Fin 9660, diff = Fin (- 340), pct = Fin (- 17 / 5)\<rparr>"
        "Fin 150" "Fin 150" "example_world [example_row, example_row]"] d
    by blast
qed

section \<open>One set of holdings\<close>




end
